theory Spec2Isabelle
  imports Complex_Main
begin

section \<open>Data model (types/api.ts)\<close>

text \<open>
  The backend records the client reads. A JavaScript \<open>number\<close> holding a count or an
  HTTP status is an \<open>int\<close>; the optional maps \<open>config\<close>, \<open>metadata\<close> and
  \<open>statistics\<close> of an execution are read by none of the functions modelled here and
  are left out of the record.
\<close>

record Execution =
  execution_id :: string
  status :: string
  initial_goal :: string
  max_depth :: int
  total_tasks :: int
  completed_tasks :: int
  failed_tasks :: int
  created_at :: string
  updated_at :: string

record ExecutionList =
  executions :: "Execution list"
  total :: int
  offset :: int
  limit :: int

record Health =
  status :: string
  version :: string
  uptime_seconds :: real
  active_executions :: int
  storage_connected :: bool
  cache_size :: int
  timestamp :: string

record StatusPolling =
  execution_id :: string
  status :: string
  progress :: real
  current_task_id :: "string option"
  current_task_goal :: "string option"
  completed_tasks :: int
  total_tasks :: int
  estimated_remaining_seconds :: "real option"
  last_updated :: string

record ErrorResponse =
  error :: string
  detail :: "string option"
  execution_id :: "string option"
  timestamp :: string

section \<open>Aggregator (components/Dashboard.tsx, \<open>stats\<close>)\<close>

record DashboardStats =
  totalExecutions :: nat
  activeExecutions :: nat
  completedExecutions :: nat
  failedExecutions :: nat
  averageExecutionTime :: nat
  totalTokensUsed :: nat
  totalCost :: nat

text \<open>
  The object literal that is both the initial accumulator of \<open>reduce\<close> and the
  fallback after \<open>||\<close>.
\<close>

definition initial_stats :: DashboardStats where
  "initial_stats =
     \<lparr>totalExecutions = 0, activeExecutions = 0, completedExecutions = 0,
      failedExecutions = 0, averageExecutionTime = 0, totalTokensUsed = 0, totalCost = 0\<rparr>"

text \<open>
  The callback of \<open>reduce\<close>. It receives two objects, the accumulator and the current
  execution, and may assign to either; the model returns both as they are when the
  callback returns. The source assigns to fields of \<open>acc\<close> only.
\<close>

definition reducer :: "DashboardStats \<Rightarrow> Execution \<Rightarrow> DashboardStats \<times> Execution" where
  "reducer acc execution =
     (let acc1 = acc\<lparr>totalExecutions := totalExecutions acc + 1\<rparr>;
          acc2 =
            (if Execution.status execution = ''running''
               then acc1\<lparr>activeExecutions := activeExecutions acc1 + 1\<rparr>
             else if Execution.status execution = ''completed''
               then acc1\<lparr>completedExecutions := completedExecutions acc1 + 1\<rparr>
             else if Execution.status execution = ''failed''
               then acc1\<lparr>failedExecutions := failedExecutions acc1 + 1\<rparr>
             else acc1)
      in (acc2, execution))"

text \<open>
  \<open>Array.prototype.reduce\<close> with an initial value: one pass from the left, the
  accumulator threaded through. The second component is the array as the pass leaves it.
\<close>

fun reduce_executions ::
  "DashboardStats \<Rightarrow> Execution list \<Rightarrow> DashboardStats \<times> Execution list" where
  "reduce_executions acc [] = (acc, [])"
| "reduce_executions acc (execution # rest) =
     (case reducer acc execution of (acc', execution') \<Rightarrow>
        (case reduce_executions acc' rest of (res, rest') \<Rightarrow> (res, execution' # rest')))"

text \<open>
  \<open>executionsData?.executions.reduce(\<dots>) || {\<dots>}\<close>: while the query has no data the
  optional chain yields \<open>undefined\<close> and the fallback literal is taken; the result of
  \<open>reduce\<close> is an object, hence truthy, and is never replaced by the fallback.
\<close>

definition stats_pass :: "ExecutionList option \<Rightarrow> DashboardStats \<times> ExecutionList option" where
  "stats_pass executionsData =
     (case executionsData of
        None \<Rightarrow> (initial_stats, None)
      | Some d \<Rightarrow>
          (case reduce_executions initial_stats (executions d) of
             (res, xs') \<Rightarrow> (res, Some (d\<lparr>executions := xs'\<rparr>))))"

definition stats :: "ExecutionList option \<Rightarrow> DashboardStats" where
  "stats executionsData = fst (stats_pass executionsData)"

text \<open>The list answer of the backend holding the given executions.\<close>

definition listing :: "Execution list \<Rightarrow> ExecutionList" where
  "listing xs = \<lparr>executions = xs, total = int (length xs), offset = 0, limit = 10\<rparr>"

definition count_status :: "string \<Rightarrow> Execution list \<Rightarrow> nat" where
  "count_status st xs = length (filter (\<lambda>e. Execution.status e = st) xs)"

definition mk_execution :: "string \<Rightarrow> string \<Rightarrow> Execution" where
  "mk_execution eid st =
     \<lparr>Execution.execution_id = eid, Execution.status = st,
      initial_goal = ''Summarize this document'', max_depth = 2,
      Execution.total_tasks = 0, Execution.completed_tasks = 0, failed_tasks = 0,
      created_at = ''2025-01-01T00:00:00Z'', updated_at = ''2025-01-01T00:00:00Z''\<rparr>"

section \<open>Transport adapter (lib/api.ts, the interceptors of \<open>ApiClient\<close>)\<close>

text \<open>
  What axios hands to the error callback of the response interceptor: the response of
  the backend when there is one (any status outside 2xx), none on a network failure or
  a timeout, and the message of the error object. \<open>data\<close> is the decoded body when it
  is an object.
\<close>

record FailedResponse =
  status :: int
  data :: "ErrorResponse option"

record AxiosError =
  response :: "FailedResponse option"
  message :: string

datatype Toast = ToastError string | ToastSuccess string

text \<open>
  \<open>a || b\<close> on a possibly undefined string: \<open>undefined\<close> and the empty string are
  falsy.
\<close>

definition or_else :: "string option \<Rightarrow> string \<Rightarrow> string" where
  "or_else a b = (case a of None \<Rightarrow> b | Some s \<Rightarrow> if s = [] then b else s)"

text \<open>\<open>error.response?.data?.detail\<close> and \<open>error.response?.status\<close>.\<close>

definition response_detail :: "AxiosError \<Rightarrow> string option" where
  "response_detail err =
     (case response err of
        None \<Rightarrow> None
      | Some r \<Rightarrow> (case data r of None \<Rightarrow> None | Some b \<Rightarrow> detail b))"

definition response_status :: "AxiosError \<Rightarrow> int option" where
  "response_status err = map_option FailedResponse.status (response err)"

text \<open>
  \<open>handleError\<close>: one branch per case of the \<open>if\<close> chain, each with its single
  \<open>toast.error\<close>, then \<open>Promise.reject(error)\<close>. A comparison of \<open>undefined\<close> with
  a number is false, so an error without a response reaches the last branch.
\<close>

definition handleError :: "AxiosError \<Rightarrow> Toast list \<times> (AxiosError + 'a)" where
  "handleError err =
     (let msg = or_else (response_detail err) (or_else (Some (message err)) ''An error occurred'')
      in ((if response_status err = Some 401 then [ToastError ''Authentication required'']
           else if response_status err = Some 403 then [ToastError ''Access forbidden'']
           else if response_status err = Some 404 then [ToastError ''Resource not found'']
           else if (case response_status err of None \<Rightarrow> False | Some st \<Rightarrow> st \<ge> 500)
             then [ToastError ''Server error. Please try again later.'']
           else [ToastError msg]),
          Inl err))"

text \<open>
  The response interceptor: a fulfilled response passes through, a rejected one goes
  through \<open>handleError\<close>. The request interceptor returns the configuration as it is.
\<close>

definition response_interceptor :: "AxiosError + 'a \<Rightarrow> Toast list \<times> (AxiosError + 'a)" where
  "response_interceptor outcome =
     (case outcome of Inr resp \<Rightarrow> ([], Inr resp) | Inl err \<Rightarrow> handleError err)"

text \<open>
  A request as the resource client issues it, and the backend seen from the client: for
  each request either the payload of a 2xx response or the error axios raises. Query
  parameters and bodies are JSON values.
\<close>

datatype Method = GET | POST | DELETE

datatype Json = JStr string | JNum int | JBool bool | JObj "(string \<times> Json) list"

record Request =
  verb :: Method
  url :: string
  params :: "(string \<times> Json) list"
  body :: "Json option"

type_synonym 'a Backend = "Request \<Rightarrow> AxiosError + 'a"

definition client_send :: "'a Backend \<Rightarrow> Request \<Rightarrow> Toast list \<times> (AxiosError + 'a)" where
  "client_send backend req = response_interceptor (backend req)"

definition client_get ::
  "'a Backend \<Rightarrow> string \<Rightarrow> (string \<times> Json) list \<Rightarrow> Toast list \<times> (AxiosError + 'a)" where
  "client_get backend path ps =
     client_send backend \<lparr>verb = GET, url = path, params = ps, body = None\<rparr>"

definition client_post ::
  "'a Backend \<Rightarrow> string \<Rightarrow> Json \<Rightarrow> Toast list \<times> (AxiosError + 'a)" where
  "client_post backend path b =
     client_send backend \<lparr>verb = POST, url = path, params = [], body = Some b\<rparr>"

definition client_delete :: "'a Backend \<Rightarrow> string \<Rightarrow> Toast list \<times> (AxiosError + 'a)" where
  "client_delete backend path =
     client_send backend \<lparr>verb = DELETE, url = path, params = [], body = None\<rparr>"

section \<open>Resource client (lib/api.ts, the methods of \<open>ApiClient\<close>)\<close>

text \<open>
  Each method awaits the transport call; a rejection leaves the method at the
  \<open>await\<close>, so the statements after it run on success only. The payload types the
  methods merely pass through are type parameters. A parameter with a default value is
  an \<open>option\<close>.
\<close>

definition after_success ::
  "Toast list \<times> (AxiosError + 'a) \<Rightarrow> ('a \<Rightarrow> Toast list \<times> 'b) \<Rightarrow> Toast list \<times> (AxiosError + 'b)" where
  "after_success call rest =
     (case call of
        (ts, Inl err) \<Rightarrow> (ts, Inl err)
      | (ts, Inr resp) \<Rightarrow> (case rest resp of (ts', res) \<Rightarrow> (ts @ ts', Inr res)))"

definition default_to :: "'a option \<Rightarrow> 'a \<Rightarrow> 'a" where
  "default_to v d = (case v of None \<Rightarrow> d | Some x \<Rightarrow> x)"

definition getHealth :: "Health Backend \<Rightarrow> Toast list \<times> (AxiosError + Health)" where
  "getHealth backend = after_success (client_get backend ''/health'' []) (\<lambda>resp. ([], resp))"

definition createExecution :: "'a Backend \<Rightarrow> Json \<Rightarrow> Toast list \<times> (AxiosError + 'a)" where
  "createExecution backend request =
     after_success (client_post backend ''/api/v1/executions'' request)
       (\<lambda>resp. ([ToastSuccess ''Execution started successfully''], resp))"

definition getExecutions ::
  "ExecutionList Backend \<Rightarrow> int option \<Rightarrow> int option \<Rightarrow> Toast list \<times> (AxiosError + ExecutionList)" where
  "getExecutions backend offset_opt limit_opt =
     after_success
       (client_get backend ''/api/v1/executions''
          [(''offset'', JNum (default_to offset_opt 0)), (''limit'', JNum (default_to limit_opt 20))])
       (\<lambda>resp. ([], resp))"

definition getExecution :: "Execution Backend \<Rightarrow> string \<Rightarrow> Toast list \<times> (AxiosError + Execution)" where
  "getExecution backend executionId =
     after_success (client_get backend (''/api/v1/executions/'' @ executionId) [])
       (\<lambda>resp. ([], resp))"

definition getExecutionStatus ::
  "StatusPolling Backend \<Rightarrow> string \<Rightarrow> Toast list \<times> (AxiosError + StatusPolling)" where
  "getExecutionStatus backend executionId =
     after_success
       (client_get backend (''/api/v1/executions/'' @ executionId @ ''/status'') [])
       (\<lambda>resp. ([], resp))"

definition getExecutionMetrics :: "'a Backend \<Rightarrow> string \<Rightarrow> Toast list \<times> (AxiosError + 'a)" where
  "getExecutionMetrics backend executionId =
     after_success
       (client_get backend (''/api/v1/executions/'' @ executionId @ ''/metrics'') [])
       (\<lambda>resp. ([], resp))"

definition getExecutionData :: "'a Backend \<Rightarrow> string \<Rightarrow> Toast list \<times> (AxiosError + 'a)" where
  "getExecutionData backend executionId =
     after_success
       (client_get backend (''/api/v1/executions/'' @ executionId @ ''/data'') [])
       (\<lambda>resp. ([], resp))"

definition deleteExecution :: "'a Backend \<Rightarrow> string \<Rightarrow> Toast list \<times> (AxiosError + unit)" where
  "deleteExecution backend executionId =
     after_success (client_delete backend (''/api/v1/executions/'' @ executionId))
       (\<lambda>resp. ([ToastSuccess ''Execution deleted successfully''], ()))"

definition getCheckpoints :: "'a Backend \<Rightarrow> string \<Rightarrow> Toast list \<times> (AxiosError + 'a)" where
  "getCheckpoints backend executionId =
     after_success
       (client_get backend ''/api/v1/checkpoints'' [(''execution_id'', JStr executionId)])
       (\<lambda>resp. ([], resp))"

definition getCheckpoint :: "'a Backend \<Rightarrow> string \<Rightarrow> Toast list \<times> (AxiosError + 'a)" where
  "getCheckpoint backend checkpointId =
     after_success (client_get backend (''/api/v1/checkpoints/'' @ checkpointId) [])
       (\<lambda>resp. ([], resp))"

definition restoreCheckpoint ::
  "'a Backend \<Rightarrow> string \<Rightarrow> bool option \<Rightarrow> Toast list \<times> (AxiosError + unit)" where
  "restoreCheckpoint backend checkpointId resume =
     after_success
       (client_post backend (''/api/v1/checkpoints/'' @ checkpointId @ ''/restore'')
          (JObj [(''resume'', JBool (default_to resume True))]))
       (\<lambda>resp. ([ToastSuccess ''Checkpoint restored successfully''], ()))"

definition getTaskTraces :: "'a Backend \<Rightarrow> string \<Rightarrow> Toast list \<times> (AxiosError + 'a)" where
  "getTaskTraces backend executionId =
     after_success
       (client_get backend ''/api/v1/traces/tasks'' [(''execution_id'', JStr executionId)])
       (\<lambda>resp. ([], resp))"

definition getLMTraces :: "'a Backend \<Rightarrow> string \<Rightarrow> Toast list \<times> (AxiosError + 'a)" where
  "getLMTraces backend executionId =
     after_success
       (client_get backend ''/api/v1/traces/lm'' [(''execution_id'', JStr executionId)])
       (\<lambda>resp. ([], resp))"

definition updateConfig :: "'a Backend \<Rightarrow> Json \<Rightarrow> Toast list \<times> (AxiosError + unit)" where
  "updateConfig backend request =
     after_success (client_post backend ''/api/v1/config/update'' request)
       (\<lambda>resp. ([ToastSuccess ''Configuration updated successfully''], ()))"

definition getProfiles :: "'a Backend \<Rightarrow> Toast list \<times> (AxiosError + 'a)" where
  "getProfiles backend =
     after_success (client_get backend ''/api/v1/config/profiles'' []) (\<lambda>resp. ([], resp))"

definition getProfile :: "'a Backend \<Rightarrow> string \<Rightarrow> Toast list \<times> (AxiosError + 'a)" where
  "getProfile backend profileName =
     after_success (client_get backend (''/api/v1/config/profiles/'' @ profileName) [])
       (\<lambda>resp. ([], resp))"

section \<open>Event loop\<close>

text \<open>
  Both polling loops are asynchronous: a call runs until its \<open>await\<close>, and its
  continuation runs when the request settles; a timer callback runs when the timer fires.
  The observable state of a loop is the list of requests it has issued, the number of
  them not yet settled, and the notifications and console lines it has produced.
\<close>

record Runtime =
  issued :: "Request list"
  in_flight :: nat
  toasts :: "Toast list"
  console :: "string list"

section \<open>Status poller (lib/api.ts, \<open>pollExecutionStatus\<close>)\<close>

text \<open>
  The value of \<open>this\<close> in the body of \<open>pollExecutionStatus\<close>. Called as a method,
  \<open>apiClient.pollExecutionStatus(\<dots>)\<close>, it is the client. The module also exports
  the function by name, destructured from the instance (\<open>export const { \<dots>,
  pollExecutionStatus, \<dots> } = apiClient\<close>); called on its own, that function runs
  with \<open>this\<close> undefined.
\<close>

datatype Receiver = Instance | Undefined

text \<open>
  \<open>receiver\<close> is the \<open>this\<close> the arrow function \<open>poll\<close> has captured;
  \<open>timers\<close> holds the delay of every pending \<open>setTimeout(poll, interval)\<close>;
  \<open>delivered\<close> holds the arguments of the calls of \<open>onUpdate\<close>, in order.
\<close>

record Poller = Runtime +
  receiver :: Receiver
  executionId :: string
  interval :: nat
  timers :: "nat list"
  delivered :: "StatusPolling list"

text \<open>The caller's sink is foreign code: a call of it returns or throws.\<close>

datatype SinkResult = Returns | Throws

datatype PollEvent =
    FetchSettles "AxiosError + StatusPolling" SinkResult
  | TimerFires
  | StopCalled

text \<open>
  \<open>poll\<close> up to its \<open>await\<close>. On the client, \<open>this.getExecutionStatus\<close> issues
  the status request. With \<open>this\<close> undefined the property access throws a TypeError
  inside the \<open>try\<close> block: the \<open>catch\<close> block writes its console line, no request
  is issued and \<open>poll\<close> is over.
\<close>

definition poll_start :: "Poller \<Rightarrow> Poller" where
  "poll_start s =
     (case receiver s of
        Instance \<Rightarrow>
          s\<lparr>issued := issued s @
               [\<lparr>verb = GET, url = ''/api/v1/executions/'' @ executionId s @ ''/status'',
                 params = [], body = None\<rparr>],
            in_flight := in_flight s + 1\<rparr>
      | Undefined \<Rightarrow>
          s\<lparr>console := console s @ [''Error polling execution status:'']\<rparr>)"

text \<open>
  \<open>poll\<close> from its \<open>await\<close> on, with the outcome of the request. The \<open>try\<close> block
  covers the \<open>await\<close>, the call of the sink, the terminal test and \<open>setTimeout\<close>;
  the \<open>catch\<close> block writes one console line and nothing else.
\<close>

definition poll_resume :: "AxiosError + StatusPolling \<Rightarrow> SinkResult \<Rightarrow> Poller \<Rightarrow> Poller" where
  "poll_resume outcome sink s =
     (case getExecutionStatus (\<lambda>_. outcome) (executionId s) of
        (ts, Inl err) \<Rightarrow>
          s\<lparr>in_flight := in_flight s - 1, toasts := toasts s @ ts,
            console := console s @ [''Error polling execution status:'']\<rparr>
      | (ts, Inr st) \<Rightarrow>
          (let s1 = s\<lparr>in_flight := in_flight s - 1, toasts := toasts s @ ts,
                      delivered := delivered s @ [st]\<rparr>
           in case sink of
                Throws \<Rightarrow> s1\<lparr>console := console s1 @ [''Error polling execution status:'']\<rparr>
              | Returns \<Rightarrow>
                  if StatusPolling.status st \<in> set [''completed'', ''failed'', ''cancelled'']
                  then s1
                  else s1\<lparr>timers := timers s1 @ [interval s1]\<rparr>))"

text \<open>The function \<open>pollExecutionStatus\<close> returns: its body is empty.\<close>

definition stop_polling :: "Poller \<Rightarrow> Poller" where
  "stop_polling s = s"

text \<open>
  \<open>pollExecutionStatus(executionId, onUpdate, interval = 2000)\<close> with the given
  \<open>this\<close>: the state when the call returns, after \<open>poll()\<close> has run up to its
  \<open>await\<close>, or to its end when it has thrown before.
\<close>

definition pollExecutionStatus :: "Receiver \<Rightarrow> string \<Rightarrow> nat option \<Rightarrow> Poller" where
  "pollExecutionStatus rcv eid iv =
     poll_start
       \<lparr>issued = [], in_flight = 0, toasts = [], console = [],
        receiver = rcv, executionId = eid, interval = default_to iv 2000,
        timers = [], delivered = []\<rparr>"

text \<open>
  One event of the loop; \<open>None\<close> when the event cannot happen in the state (no request
  to settle, no timer to fire).
\<close>

fun poller_step :: "PollEvent \<Rightarrow> Poller \<Rightarrow> Poller option" where
  "poller_step (FetchSettles outcome sink) s =
     (if in_flight s = 0 then None else Some (poll_resume outcome sink s))"
| "poller_step TimerFires s =
     (case timers s of [] \<Rightarrow> None | d # ds \<Rightarrow> Some (poll_start (s\<lparr>timers := ds\<rparr>)))"
| "poller_step StopCalled s = Some (stop_polling s)"

fun poller_run :: "PollEvent list \<Rightarrow> Poller \<Rightarrow> Poller option" where
  "poller_run [] s = Some s"
| "poller_run (ev # evs) s =
     (case poller_step ev s of None \<Rightarrow> None | Some s' \<Rightarrow> poller_run evs s')"

section \<open>Health monitor (app/page.tsx, the effect of \<open>Home\<close>)\<close>

text \<open>
  \<open>health\<close> is the React state of the component, \<open>null\<close> at first;
  \<open>interval_timer\<close> is the period of the running \<open>setInterval\<close> timer, if any.
\<close>

record Home = Runtime +
  health :: "Health option"
  interval_timer :: "nat option"



definition fetchHealth_resume :: "AxiosError + Health \<Rightarrow> Home \<Rightarrow> Home" where
  "fetchHealth_resume outcome s =
     (case getHealth (\<lambda>_. outcome) of
        (ts, Inl err) \<Rightarrow>
          s\<lparr>in_flight := in_flight s - 1, toasts := toasts s @ ts,
            console := console s @ [''Failed to fetch health:'']\<rparr>
      | (ts, Inr healthData) \<Rightarrow>
          s\<lparr>in_flight := in_flight s - 1, toasts := toasts s @ ts,
            health := Some healthData\<rparr>)"





section \<open>Error taxonomy of the specification\<close>

text \<open>
  The specification names five classes of failure. The source has no such type: its
  classes are the branches of \<open>handleError\<close>. \<open>spec_classify\<close> is written from the
  classification table of the specification, for comparison with \<open>handleError\<close>; the
  generic message of \<open>RequestFailed\<close> is the message of the error object, or the fixed
  text when that is empty. \<open>class_notification\<close> is the text a class is shown with.
\<close>

datatype ErrorClass = AuthRequired | Forbidden | NotFound | ServerError | RequestFailed string

definition spec_classify :: "AxiosError \<Rightarrow> ErrorClass" where
  "spec_classify err =
     (case response err of
        None \<Rightarrow> RequestFailed (or_else (Some (message err)) ''An error occurred'')
      | Some r \<Rightarrow>
          if FailedResponse.status r = 401 then AuthRequired
          else if FailedResponse.status r = 403 then Forbidden
          else if FailedResponse.status r = 404 then NotFound
          else if FailedResponse.status r \<ge> 500 then ServerError
          else RequestFailed
                 (case data r of
                    None \<Rightarrow> or_else (Some (message err)) ''An error occurred''
                  | Some b \<Rightarrow>
                      or_else (detail b) (or_else (Some (message err)) ''An error occurred'')))"

fun class_notification :: "ErrorClass \<Rightarrow> string" where
  "class_notification AuthRequired = ''Authentication required''"
| "class_notification Forbidden = ''Access forbidden''"
| "class_notification NotFound = ''Resource not found''"
| "class_notification ServerError = ''Server error. Please try again later.''"
| "class_notification (RequestFailed msg) = msg"

text \<open>Whether a notification is a call of \<open>toast.success\<close>.\<close>

definition is_success :: "Toast \<Rightarrow> bool" where
  "is_success t = (case t of ToastSuccess _ \<Rightarrow> True | ToastError _ \<Rightarrow> False)"

section \<open>Requests and invariant of the loops\<close>

text \<open>The request \<open>poll\<close> issues and the request \<open>fetchHealth\<close> issues.\<close>

definition status_request :: "string \<Rightarrow> Request" where
  "status_request eid =
     \<lparr>verb = GET, url = ''/api/v1/executions/'' @ eid @ ''/status'', params = [], body = None\<rparr>"


text \<open>
  The status poller has at most one thing pending, a request in flight or a timer, and
  nothing at all when it runs without the client as receiver.
\<close>

definition poller_inv :: "Poller \<Rightarrow> bool" where
  "poller_inv s =
     (in_flight s + length (timers s) \<le> 1 \<and>
      (receiver s = Instance \<or> (in_flight s = 0 \<and> timers s = [])))"

section \<open>Sample inputs\<close>

definition sample_executions :: "Execution list" where
  "sample_executions =
     [mk_execution ''e1'' ''running'', mk_execution ''e2'' ''completed'',
      mk_execution ''e3'' ''failed'', mk_execution ''e4'' ''pending'',
      mk_execution ''e5'' ''cancelled'', mk_execution ''e6'' ''running'']"

definition http_error :: "int \<Rightarrow> string option \<Rightarrow> AxiosError" where
  "http_error st d =
     \<lparr>response =
        Some \<lparr>FailedResponse.status = st,
              data = Some \<lparr>error = ''error'', detail = d, ErrorResponse.execution_id = None,
                           ErrorResponse.timestamp = ''2025-01-01T00:00:00Z''\<rparr>\<rparr>,
      message = ''Request failed''\<rparr>"

definition network_error :: AxiosError where
  "network_error = \<lparr>response = None, message = ''Network Error''\<rparr>"

definition snapshot :: "string \<Rightarrow> string \<Rightarrow> StatusPolling" where
  "snapshot eid st =
     \<lparr>StatusPolling.execution_id = eid, StatusPolling.status = st, progress = 0.5,
      current_task_id = None, current_task_goal = None,
      StatusPolling.completed_tasks = 1, StatusPolling.total_tasks = 2,
      estimated_remaining_seconds = None, last_updated = ''2025-01-01T00:00:00Z''\<rparr>"


section \<open>Properties of the aggregator\<close>

lemma reducer_snd: "snd (reducer acc e) = e"
  by (simp add: reducer_def Let_def)

lemma reducer_total: "totalExecutions (fst (reducer acc e)) = totalExecutions acc + 1"
  by (simp add: reducer_def Let_def)

lemma reducer_active:
  "activeExecutions (fst (reducer acc e)) =
     activeExecutions acc + (if Execution.status e = ''running'' then 1 else 0)"
  by (simp add: reducer_def Let_def)

lemma reducer_completed:
  "completedExecutions (fst (reducer acc e)) =
     completedExecutions acc + (if Execution.status e = ''completed'' then 1 else 0)"
  by (simp add: reducer_def Let_def)

lemma reducer_failed:
  "failedExecutions (fst (reducer acc e)) =
     failedExecutions acc + (if Execution.status e = ''failed'' then 1 else 0)"
  by (simp add: reducer_def Let_def)

lemma reducer_rest:
  "averageExecutionTime (fst (reducer acc e)) = averageExecutionTime acc \<and>
   totalTokensUsed (fst (reducer acc e)) = totalTokensUsed acc \<and>
   totalCost (fst (reducer acc e)) = totalCost acc"
  by (simp add: reducer_def Let_def)

lemma reduce_executions_Cons:
  "reduce_executions acc (e # xs) =
     (fst (reduce_executions (fst (reducer acc e)) xs),
      snd (reducer acc e) # snd (reduce_executions (fst (reducer acc e)) xs))"
  by (simp add: split_beta)

lemma reduce_snd: "snd (reduce_executions acc xs) = xs"
  by (induction xs arbitrary: acc) (simp_all add: split_beta reducer_snd)

lemma reduce_total:
  "totalExecutions (fst (reduce_executions acc xs)) = totalExecutions acc + length xs"
  by (induction xs arbitrary: acc) (simp_all add: split_beta reducer_total)

lemma reduce_active:
  "activeExecutions (fst (reduce_executions acc xs)) =
     activeExecutions acc + count_status ''running'' xs"
  by (induction xs arbitrary: acc)
     (simp_all add: split_beta reducer_active count_status_def)

lemma reduce_completed:
  "completedExecutions (fst (reduce_executions acc xs)) =
     completedExecutions acc + count_status ''completed'' xs"
  by (induction xs arbitrary: acc)
     (simp_all add: split_beta reducer_completed count_status_def)

lemma reduce_failed:
  "failedExecutions (fst (reduce_executions acc xs)) =
     failedExecutions acc + count_status ''failed'' xs"
  by (induction xs arbitrary: acc)
     (simp_all add: split_beta reducer_failed count_status_def)

lemma reduce_rest:
  "averageExecutionTime (fst (reduce_executions acc xs)) = averageExecutionTime acc \<and>
   totalTokensUsed (fst (reduce_executions acc xs)) = totalTokensUsed acc \<and>
   totalCost (fst (reduce_executions acc xs)) = totalCost acc"
  by (induction xs arbitrary: acc) (simp_all add: split_beta reducer_rest)

lemma stats_Some: "stats (Some d) = fst (reduce_executions initial_stats (executions d))"
  by (simp add: stats_def stats_pass_def split_beta)

lemma stats_closed_form:
  "stats (Some d) =
     \<lparr>totalExecutions = length (executions d),
      activeExecutions = count_status ''running'' (executions d),
      completedExecutions = count_status ''completed'' (executions d),
      failedExecutions = count_status ''failed'' (executions d),
      averageExecutionTime = 0, totalTokensUsed = 0, totalCost = 0\<rparr>"
proof -
  let ?r = "fst (reduce_executions initial_stats (executions d))"
  have "totalExecutions ?r = length (executions d)"
    using reduce_total [of initial_stats "executions d"] by (simp add: initial_stats_def)
  moreover have "activeExecutions ?r = count_status ''running'' (executions d)"
    using reduce_active [of initial_stats "executions d"] by (simp add: initial_stats_def)
  moreover have "completedExecutions ?r = count_status ''completed'' (executions d)"
    using reduce_completed [of initial_stats "executions d"] by (simp add: initial_stats_def)
  moreover have "failedExecutions ?r = count_status ''failed'' (executions d)"
    using reduce_failed [of initial_stats "executions d"] by (simp add: initial_stats_def)
  moreover have "averageExecutionTime ?r = 0 \<and> totalTokensUsed ?r = 0 \<and> totalCost ?r = 0"
    using reduce_rest [of initial_stats "executions d"] by (simp add: initial_stats_def)
  ultimately show ?thesis
    by (simp add: stats_Some)
qed

lemma stats_pass_input: "snd (stats_pass executionsData) = executionsData"
  by (cases executionsData) (simp_all add: stats_pass_def split_beta reduce_snd)

lemma three_counts:
  "count_status ''running'' xs + count_status ''completed'' xs + count_status ''failed'' xs
     = length (filter (\<lambda>e. Execution.status e \<in> {''running'', ''completed'', ''failed''}) xs)"
  by (induction xs) (simp_all add: count_status_def)

lemma reducer_cases:
  "(Execution.status e = ''running'' \<longrightarrow>
      fst (reducer acc e) =
        acc\<lparr>totalExecutions := totalExecutions acc + 1,
            activeExecutions := activeExecutions acc + 1\<rparr>) \<and>
   (Execution.status e = ''completed'' \<longrightarrow>
      fst (reducer acc e) =
        acc\<lparr>totalExecutions := totalExecutions acc + 1,
            completedExecutions := completedExecutions acc + 1\<rparr>) \<and>
   (Execution.status e = ''failed'' \<longrightarrow>
      fst (reducer acc e) =
        acc\<lparr>totalExecutions := totalExecutions acc + 1,
            failedExecutions := failedExecutions acc + 1\<rparr>) \<and>
   (Execution.status e \<notin> {''running'', ''completed'', ''failed''} \<longrightarrow>
      fst (reducer acc e) = acc\<lparr>totalExecutions := totalExecutions acc + 1\<rparr>)"
  by (simp add: reducer_def Let_def)

lemma stats_None: "stats None = initial_stats"
  by (simp add: stats_def stats_pass_def)

lemma filter_all_length:
  "(length (filter P xs) = length xs) = (\<forall>x\<in>set xs. P x)"
proof (induction xs)
  case Nil
  show ?case by simp
next
  case (Cons x xs)
  show ?case
  proof (cases "P x")
    case True
    with Cons show ?thesis by simp
  next
    case False
    have "length (filter P xs) < Suc (length xs)"
      using length_filter_le [of P xs] by (rule le_imp_less_Suc)
    then have "length (filter P xs) \<noteq> Suc (length xs)" by (rule less_imp_neq)
    with False show ?thesis by simp
  qed
qed

text \<open>
  Claim C4. For every sequence of executions the aggregation is one pass that sets
  \<open>totalExecutions\<close> to the length of the sequence and, for each record, adds one to
  exactly one of \<open>activeExecutions\<close> (status running), \<open>completedExecutions\<close>
  (status completed) or \<open>failedExecutions\<close> (status failed); a record of any other
  status adds to the total only. On the empty sequence every field is zero, and the
  input collection is the same after the pass as before.
\<close>

theorem stats_single_pass:
  "stats (Some d) =
     \<lparr>totalExecutions = length (executions d),
      activeExecutions = count_status ''running'' (executions d),
      completedExecutions = count_status ''completed'' (executions d),
      failedExecutions = count_status ''failed'' (executions d),
      averageExecutionTime = 0, totalTokensUsed = 0, totalCost = 0\<rparr> \<and>
   (Execution.status e = ''running'' \<longrightarrow>
      fst (reducer acc e) =
        acc\<lparr>totalExecutions := totalExecutions acc + 1,
            activeExecutions := activeExecutions acc + 1\<rparr>) \<and>
   (Execution.status e = ''completed'' \<longrightarrow>
      fst (reducer acc e) =
        acc\<lparr>totalExecutions := totalExecutions acc + 1,
            completedExecutions := completedExecutions acc + 1\<rparr>) \<and>
   (Execution.status e = ''failed'' \<longrightarrow>
      fst (reducer acc e) =
        acc\<lparr>totalExecutions := totalExecutions acc + 1,
            failedExecutions := failedExecutions acc + 1\<rparr>) \<and>
   (Execution.status e \<notin> {''running'', ''completed'', ''failed''} \<longrightarrow>
      fst (reducer acc e) = acc\<lparr>totalExecutions := totalExecutions acc + 1\<rparr>) \<and>
   (executions d = [] \<longrightarrow>
      stats (Some d) =
        \<lparr>totalExecutions = 0, activeExecutions = 0, completedExecutions = 0,
         failedExecutions = 0, averageExecutionTime = 0, totalTokensUsed = 0,
         totalCost = 0\<rparr>) \<and>
   snd (stats_pass (Some d)) = Some d"
proof -
  have empty: "executions d = [] \<longrightarrow>
      stats (Some d) =
        \<lparr>totalExecutions = 0, activeExecutions = 0, completedExecutions = 0,
         failedExecutions = 0, averageExecutionTime = 0, totalTokensUsed = 0,
         totalCost = 0\<rparr>"
    by (simp add: stats_closed_form count_status_def)
  show ?thesis
    using stats_closed_form [of d] reducer_cases [of e acc] empty stats_pass_input [of "Some d"]
    by blast
qed

text \<open>
  Claim C6. When every status lies in pending, running, completed, failed, cancelled, the
  three counters add up to at most \<open>totalExecutions\<close>, with equality exactly when no
  record is pending or cancelled; \<open>totalExecutions\<close> is the length of the sequence, and
  all fields are zero on the empty sequence.
\<close>

theorem stats_bounds:
  assumes "\<forall>e\<in>set (executions d).
             Execution.status e \<in> {''pending'', ''running'', ''completed'', ''failed'', ''cancelled''}"
  shows "activeExecutions (stats (Some d)) + completedExecutions (stats (Some d))
           + failedExecutions (stats (Some d)) \<le> totalExecutions (stats (Some d)) \<and>
         (activeExecutions (stats (Some d)) + completedExecutions (stats (Some d))
            + failedExecutions (stats (Some d)) = totalExecutions (stats (Some d))
          \<longleftrightarrow> (\<forall>e\<in>set (executions d).
                 Execution.status e \<noteq> ''pending'' \<and> Execution.status e \<noteq> ''cancelled'')) \<and>
         totalExecutions (stats (Some d)) = length (executions d) \<and>
         (executions d = [] \<longrightarrow>
            stats (Some d) =
              \<lparr>totalExecutions = 0, activeExecutions = 0, completedExecutions = 0,
               failedExecutions = 0, averageExecutionTime = 0, totalTokensUsed = 0,
               totalCost = 0\<rparr>)"
proof -
  let ?P = "\<lambda>e. Execution.status e \<in> {''running'', ''completed'', ''failed''}"
  let ?xs = "executions d"
  have sum: "activeExecutions (stats (Some d)) + completedExecutions (stats (Some d))
           + failedExecutions (stats (Some d)) = length (filter ?P ?xs)"
    by (simp add: stats_closed_form three_counts)
  have tot: "totalExecutions (stats (Some d)) = length ?xs"
    by (simp add: stats_closed_form)
  have le: "length (filter ?P ?xs) \<le> length ?xs" by (rule length_filter_le)
  have "(length (filter ?P ?xs) = length ?xs) = (\<forall>e\<in>set ?xs. ?P e)"
    by (rule filter_all_length)
  also have "\<dots> = (\<forall>e\<in>set ?xs.
                 Execution.status e \<noteq> ''pending'' \<and> Execution.status e \<noteq> ''cancelled'')"
    using assms by auto
  finally have iff: "(length (filter ?P ?xs) = length ?xs) = (\<forall>e\<in>set ?xs.
                 Execution.status e \<noteq> ''pending'' \<and> Execution.status e \<noteq> ''cancelled'')" .
  have empty: "executions d = [] \<longrightarrow>
      stats (Some d) =
        \<lparr>totalExecutions = 0, activeExecutions = 0, completedExecutions = 0,
         failedExecutions = 0, averageExecutionTime = 0, totalTokensUsed = 0,
         totalCost = 0\<rparr>"
    by (simp add: stats_closed_form count_status_def)
  show ?thesis
    unfolding sum tot using le iff empty by blast
qed

text \<open>
  Claim C10. The fields \<open>averageExecutionTime\<close>, \<open>totalTokensUsed\<close> and
  \<open>totalCost\<close> are zero for every input, the absent and the empty one included: no
  branch of the callback changes them.
\<close>

theorem stats_unused_fields:
  "averageExecutionTime (stats executionsData) = 0 \<and>
   totalTokensUsed (stats executionsData) = 0 \<and>
   totalCost (stats executionsData) = 0 \<and>
   averageExecutionTime (fst (reducer acc e)) = averageExecutionTime acc \<and>
   totalTokensUsed (fst (reducer acc e)) = totalTokensUsed acc \<and>
   totalCost (fst (reducer acc e)) = totalCost acc"
proof (cases executionsData)
  case None
  then show ?thesis by (simp add: stats_None initial_stats_def reducer_rest)
next
  case (Some d)
  then show ?thesis by (simp add: stats_closed_form reducer_rest)
qed


theorem stats_single_pass_witness:
  "stats (Some (listing sample_executions)) =
     \<lparr>totalExecutions = 6, activeExecutions = 2, completedExecutions = 1,
      failedExecutions = 1, averageExecutionTime = 0, totalTokensUsed = 0, totalCost = 0\<rparr> \<and>
   fst (reducer initial_stats (mk_execution ''e1'' ''running'')) =
     initial_stats\<lparr>totalExecutions := 1, activeExecutions := 1\<rparr> \<and>
   fst (reducer initial_stats (mk_execution ''e2'' ''completed'')) =
     initial_stats\<lparr>totalExecutions := 1, completedExecutions := 1\<rparr> \<and>
   fst (reducer initial_stats (mk_execution ''e3'' ''failed'')) =
     initial_stats\<lparr>totalExecutions := 1, failedExecutions := 1\<rparr> \<and>
   fst (reducer initial_stats (mk_execution ''e4'' ''pending'')) =
     initial_stats\<lparr>totalExecutions := 1\<rparr> \<and>
   stats (Some (listing [])) = initial_stats \<and>
   snd (stats_pass (Some (listing sample_executions))) = Some (listing sample_executions)"
  using stats_single_pass [of "listing sample_executions" "mk_execution ''e1'' ''running''" initial_stats]
        stats_single_pass [of "listing []" "mk_execution ''e2'' ''completed''" initial_stats]
        stats_single_pass [of "listing []" "mk_execution ''e3'' ''failed''" initial_stats]
        stats_single_pass [of "listing []" "mk_execution ''e4'' ''pending''" initial_stats]
  by (simp add: listing_def sample_executions_def mk_execution_def count_status_def
        initial_stats_def)

theorem stats_bounds_witness:
  "set (map Execution.status (executions (listing sample_executions)))
     \<subseteq> {''pending'', ''running'', ''completed'', ''failed'', ''cancelled''} \<and>
   activeExecutions (stats (Some (listing sample_executions)))
     + completedExecutions (stats (Some (listing sample_executions)))
     + failedExecutions (stats (Some (listing sample_executions))) = 4 \<and>
   totalExecutions (stats (Some (listing sample_executions))) = 6 \<and>
   activeExecutions (stats (Some (listing (take 3 sample_executions))))
     + completedExecutions (stats (Some (listing (take 3 sample_executions))))
     + failedExecutions (stats (Some (listing (take 3 sample_executions))))
     = totalExecutions (stats (Some (listing (take 3 sample_executions)))) \<and>
   stats (Some (listing [])) =
     \<lparr>totalExecutions = 0, activeExecutions = 0, completedExecutions = 0,
      failedExecutions = 0, averageExecutionTime = 0, totalTokensUsed = 0, totalCost = 0\<rparr>"
proof -
  have h0: "\<forall>e\<in>set (executions (listing [])).
      Execution.status e \<in> {''pending'', ''running'', ''completed'', ''failed'', ''cancelled''}"
    by (simp add: listing_def)
  have none: "stats (Some (listing [])) =
     \<lparr>totalExecutions = 0, activeExecutions = 0, completedExecutions = 0,
      failedExecutions = 0, averageExecutionTime = 0, totalTokensUsed = 0, totalCost = 0\<rparr>"
    using stats_bounds [OF h0] by (simp add: listing_def)
  have h1: "\<forall>e\<in>set (executions (listing sample_executions)).
      Execution.status e \<in> {''pending'', ''running'', ''completed'', ''failed'', ''cancelled''}"
    by (simp add: listing_def sample_executions_def mk_execution_def)
  have h2: "\<forall>e\<in>set (executions (listing (take 3 sample_executions))).
      Execution.status e \<in> {''pending'', ''running'', ''completed'', ''failed'', ''cancelled''}"
    by (simp add: listing_def sample_executions_def mk_execution_def)
  have free: "\<forall>e\<in>set (executions (listing (take 3 sample_executions))).
      Execution.status e \<noteq> ''pending'' \<and> Execution.status e \<noteq> ''cancelled''"
    by (simp add: listing_def sample_executions_def mk_execution_def)
  have vals: "activeExecutions (stats (Some (listing sample_executions)))
     + completedExecutions (stats (Some (listing sample_executions)))
     + failedExecutions (stats (Some (listing sample_executions))) = 4"
    by (simp add: stats_closed_form listing_def sample_executions_def mk_execution_def
          count_status_def)
  show ?thesis
    using h1 free vals none stats_bounds [OF h1] stats_bounds [OF h2]
    by (simp add: listing_def sample_executions_def)
qed

section \<open>Properties of the transport adapter and the resource client\<close>

lemma handleError_classified:
  "handleError err = ([ToastError (class_notification (spec_classify err))], Inl err)"
  by (simp add: handleError_def spec_classify_def response_status_def response_detail_def
        or_else_def Let_def split: option.splits)

lemma failing_call:
  "after_success (client_send (\<lambda>_. Inl err) req) rest = handleError err"
  apply (simp add: after_success_def client_send_def response_interceptor_def handleError_def Let_def)
  done

lemma succeeding_call:
  "after_success (client_send (\<lambda>_. Inr resp) req) rest = (fst (rest resp), Inr (snd (rest resp)))"
  by (simp add: after_success_def client_send_def response_interceptor_def split_beta)

lemma readonly_call:
  "filter is_success (fst (after_success (client_send backend req) (\<lambda>resp. ([], resp)))) = []"
  by (cases "backend req")
     (simp_all add: after_success_def client_send_def response_interceptor_def handleError_def
        Let_def is_success_def)


lemmas client_defs = client_get_def client_post_def client_delete_def

lemmas op_defs =
  getHealth_def createExecution_def getExecutions_def getExecution_def
  getExecutionStatus_def getExecutionMetrics_def getExecutionData_def deleteExecution_def
  getCheckpoints_def getCheckpoint_def restoreCheckpoint_def getTaskTraces_def
  getLMTraces_def updateConfig_def getProfiles_def getProfile_def

lemma ops_failing:
  "fst (getHealth (\<lambda>_. Inl err)) =
     [ToastError (class_notification (spec_classify err))]"
  "fst (createExecution (\<lambda>_. Inl err) request) =
     [ToastError (class_notification (spec_classify err))]"
  "fst (getExecutions (\<lambda>_. Inl err) off lm) =
     [ToastError (class_notification (spec_classify err))]"
  "fst (getExecution (\<lambda>_. Inl err) eid) =
     [ToastError (class_notification (spec_classify err))]"
  "fst (getExecutionStatus (\<lambda>_. Inl err) eid) =
     [ToastError (class_notification (spec_classify err))]"
  "fst (getExecutionMetrics (\<lambda>_. Inl err) eid) =
     [ToastError (class_notification (spec_classify err))]"
  "fst (getExecutionData (\<lambda>_. Inl err) eid) =
     [ToastError (class_notification (spec_classify err))]"
  "fst (deleteExecution (\<lambda>_. Inl err) eid) =
     [ToastError (class_notification (spec_classify err))]"
  "fst (getCheckpoints (\<lambda>_. Inl err) eid) =
     [ToastError (class_notification (spec_classify err))]"
  "fst (getCheckpoint (\<lambda>_. Inl err) cid) =
     [ToastError (class_notification (spec_classify err))]"
  "fst (restoreCheckpoint (\<lambda>_. Inl err) cid resume) =
     [ToastError (class_notification (spec_classify err))]"
  "fst (getTaskTraces (\<lambda>_. Inl err) eid) =
     [ToastError (class_notification (spec_classify err))]"
  "fst (getLMTraces (\<lambda>_. Inl err) eid) =
     [ToastError (class_notification (spec_classify err))]"
  "fst (updateConfig (\<lambda>_. Inl err) request) =
     [ToastError (class_notification (spec_classify err))]"
  "fst (getProfiles (\<lambda>_. Inl err)) =
     [ToastError (class_notification (spec_classify err))]"
  "fst (getProfile (\<lambda>_. Inl err) pname) =
     [ToastError (class_notification (spec_classify err))]"
  by (simp_all add: op_defs client_defs failing_call handleError_classified)

lemma poll_resume_failed:
  "poll_resume (Inl err) sink s =
     s\<lparr>in_flight := in_flight s - 1, toasts := toasts s @ [ToastError (class_notification (spec_classify err))],
       console := console s @ [''Error polling execution status:'']\<rparr>"
  by (simp add: poll_resume_def getExecutionStatus_def client_get_def failing_call
        handleError_classified)

lemma fetchHealth_resume_failed:
  "fetchHealth_resume (Inl err) s =
     s\<lparr>in_flight := in_flight s - 1, toasts := toasts s @ [ToastError (class_notification (spec_classify err))],
       console := console s @ [''Failed to fetch health:'']\<rparr>"
  by (simp add: fetchHealth_resume_def getHealth_def client_get_def failing_call
        handleError_classified)

text \<open>
  Claim C5. On every failed call the transport adapter classifies the error: status 401
  as AuthRequired, 403 as Forbidden, 404 as NotFound, a status of 500 or more as
  ServerError, and every other status or an absent response as RequestFailed, with the
  detail message of the backend when there is a non-empty one and a generic message
  otherwise. It emits exactly one error notification, the one of the class, and rejects
  with the error. No other place emits one: every operation of the resource client
  produces on failure this single notification, and the catch blocks of the status poller
  and of the health monitor add none.
\<close>

theorem transport_error_mapping:
  "handleError err = ([ToastError (class_notification (spec_classify err))], Inl err) \<and>
   response_interceptor (Inl err) = handleError err \<and>
   response_interceptor (Inr resp) = ([], Inr resp) \<and>
   fst (getHealth (\<lambda>_. Inl err)) = [ToastError (class_notification (spec_classify err))] \<and>
   fst (createExecution (\<lambda>_. Inl err) request) = [ToastError (class_notification (spec_classify err))] \<and>
   fst (getExecutions (\<lambda>_. Inl err) off lm) = [ToastError (class_notification (spec_classify err))] \<and>
   fst (getExecution (\<lambda>_. Inl err) eid) = [ToastError (class_notification (spec_classify err))] \<and>
   fst (getExecutionStatus (\<lambda>_. Inl err) eid) = [ToastError (class_notification (spec_classify err))] \<and>
   fst (getExecutionMetrics (\<lambda>_. Inl err) eid) = [ToastError (class_notification (spec_classify err))] \<and>
   fst (getExecutionData (\<lambda>_. Inl err) eid) = [ToastError (class_notification (spec_classify err))] \<and>
   fst (deleteExecution (\<lambda>_. Inl err) eid) = [ToastError (class_notification (spec_classify err))] \<and>
   fst (getCheckpoints (\<lambda>_. Inl err) eid) = [ToastError (class_notification (spec_classify err))] \<and>
   fst (getCheckpoint (\<lambda>_. Inl err) cid) = [ToastError (class_notification (spec_classify err))] \<and>
   fst (restoreCheckpoint (\<lambda>_. Inl err) cid resume) = [ToastError (class_notification (spec_classify err))] \<and>
   fst (getTaskTraces (\<lambda>_. Inl err) eid) = [ToastError (class_notification (spec_classify err))] \<and>
   fst (getLMTraces (\<lambda>_. Inl err) eid) = [ToastError (class_notification (spec_classify err))] \<and>
   fst (updateConfig (\<lambda>_. Inl err) request) = [ToastError (class_notification (spec_classify err))] \<and>
   fst (getProfiles (\<lambda>_. Inl err)) = [ToastError (class_notification (spec_classify err))] \<and>
   fst (getProfile (\<lambda>_. Inl err) pname) = [ToastError (class_notification (spec_classify err))] \<and>
   toasts (poll_resume (Inl err) sink ps) =
     toasts ps @ [ToastError (class_notification (spec_classify err))] \<and>
   toasts (fetchHealth_resume (Inl err) hs) =
     toasts hs @ [ToastError (class_notification (spec_classify err))]"
  by (simp add: ops_failing poll_resume_failed fetchHealth_resume_failed
        handleError_classified response_interceptor_def)


theorem transport_error_mapping_witness:
  "(handleError (http_error 404 None) :: Toast list \<times> (AxiosError + unit)) =
     ([ToastError ''Resource not found''], Inl (http_error 404 None)) \<and>
   spec_classify (http_error 404 None) = NotFound \<and>
   (handleError (http_error 500 None) :: Toast list \<times> (AxiosError + unit)) =
     ([ToastError ''Server error. Please try again later.''], Inl (http_error 500 None)) \<and>
   spec_classify (http_error 500 None) = ServerError \<and>
   (handleError (http_error 401 None) :: Toast list \<times> (AxiosError + unit)) =
     ([ToastError ''Authentication required''], Inl (http_error 401 None)) \<and>
   (handleError (http_error 403 None) :: Toast list \<times> (AxiosError + unit)) =
     ([ToastError ''Access forbidden''], Inl (http_error 403 None)) \<and>
   (handleError network_error :: Toast list \<times> (AxiosError + unit)) =
     ([ToastError ''Network Error''], Inl network_error) \<and>
   spec_classify network_error = RequestFailed ''Network Error'' \<and>
   (handleError (http_error 400 (Some ''Goal is required'')) :: Toast list \<times> (AxiosError + unit)) =
     ([ToastError ''Goal is required''], Inl (http_error 400 (Some ''Goal is required''))) \<and>
   (handleError (http_error 422 None) :: Toast list \<times> (AxiosError + unit)) =
     ([ToastError ''Request failed''], Inl (http_error 422 None)) \<and>
   (handleError (network_error\<lparr>message := []\<rparr>) :: Toast list \<times> (AxiosError + unit)) =
     ([ToastError ''An error occurred''], Inl (network_error\<lparr>message := []\<rparr>))"
  using transport_error_mapping [where err = "http_error 404 None", THEN conjunct1]
        transport_error_mapping [where err = "http_error 500 None", THEN conjunct1]
        transport_error_mapping [where err = "http_error 401 None", THEN conjunct1]
        transport_error_mapping [where err = "http_error 403 None", THEN conjunct1]
        transport_error_mapping [where err = "network_error", THEN conjunct1]
        transport_error_mapping [where err = "http_error 400 (Some ''Goal is required'')", THEN conjunct1]
        transport_error_mapping [where err = "http_error 422 None", THEN conjunct1]
        transport_error_mapping [where err = "network_error\<lparr>message := []\<rparr>", THEN conjunct1]
  by (simp add: spec_classify_def http_error_def network_error_def or_else_def)

lemma mutating_call:
  "filter is_success
     (fst (after_success (client_send backend req) (\<lambda>resp. ([ToastSuccess msg], res resp)))) =
     (case backend req of Inl err \<Rightarrow> [] | Inr resp \<Rightarrow> [ToastSuccess msg])"
  by (cases "backend req")
     (simp_all add: after_success_def client_send_def response_interceptor_def handleError_def
        Let_def is_success_def)

text \<open>
  Claim C7. Each of \<open>createExecution\<close>, \<open>deleteExecution\<close>,
  \<open>restoreCheckpoint\<close> and \<open>updateConfig\<close> emits exactly one success notification
  when its request succeeds (and none when it fails); none of the twelve read-only
  operations emits a success notification, whatever the backend answers.
\<close>

theorem success_notifications:
  "filter is_success (fst (createExecution b1 request)) =
     (case b1 \<lparr>verb = POST, url = ''/api/v1/executions'', params = [], body = Some request\<rparr> of
        Inl err \<Rightarrow> [] | Inr resp \<Rightarrow> [ToastSuccess ''Execution started successfully'']) \<and>
   filter is_success (fst (deleteExecution b2 eid)) =
     (case b2 \<lparr>verb = DELETE, url = ''/api/v1/executions/'' @ eid, params = [],
               body = None\<rparr> of
        Inl err \<Rightarrow> [] | Inr resp \<Rightarrow> [ToastSuccess ''Execution deleted successfully'']) \<and>
   filter is_success (fst (restoreCheckpoint b3 cid resume)) =
     (case b3 \<lparr>verb = POST, url = ''/api/v1/checkpoints/'' @ cid @ ''/restore'',
               params = [],
               body = Some (JObj [(''resume'', JBool (default_to resume True))])\<rparr> of
        Inl err \<Rightarrow> [] | Inr resp \<Rightarrow> [ToastSuccess ''Checkpoint restored successfully'']) \<and>
   filter is_success (fst (updateConfig b4 config)) =
     (case b4 \<lparr>verb = POST, url = ''/api/v1/config/update'', params = [],
               body = Some config\<rparr> of
        Inl err \<Rightarrow> [] | Inr resp \<Rightarrow> [ToastSuccess ''Configuration updated successfully'']) \<and>
   filter is_success (fst (getHealth r1)) = [] \<and>
   filter is_success (fst (getExecutions r2 offset_opt limit_opt)) = [] \<and>
   filter is_success (fst (getExecution r3 eid)) = [] \<and>
   filter is_success (fst (getExecutionStatus r4 eid)) = [] \<and>
   filter is_success (fst (getExecutionMetrics r5 eid)) = [] \<and>
   filter is_success (fst (getExecutionData r6 eid)) = [] \<and>
   filter is_success (fst (getCheckpoints r7 eid)) = [] \<and>
   filter is_success (fst (getCheckpoint r8 cid)) = [] \<and>
   filter is_success (fst (getTaskTraces r9 eid)) = [] \<and>
   filter is_success (fst (getLMTraces r10 eid)) = [] \<and>
   filter is_success (fst (getProfiles r11)) = [] \<and>
   filter is_success (fst (getProfile r12 pname)) = []"
  by (simp add: op_defs client_defs mutating_call readonly_call)

theorem success_notifications_witness:
  "fst (createExecution (\<lambda>_. Inr (mk_execution ''e1'' ''pending''))
          (JObj [(''goal'', JStr ''Summarize this document''), (''max_depth'', JNum 2)])) =
     [ToastSuccess ''Execution started successfully''] \<and>
   fst (deleteExecution (\<lambda>_. Inr ()) ''e1'') = [ToastSuccess ''Execution deleted successfully''] \<and>
   fst (restoreCheckpoint (\<lambda>_. Inr ()) ''ckpt-123'' (Some True)) =
     [ToastSuccess ''Checkpoint restored successfully''] \<and>
   fst (updateConfig (\<lambda>_. Inr ()) (JObj [(''profile'', JStr ''default'')])) =
     [ToastSuccess ''Configuration updated successfully''] \<and>
   fst (createExecution (\<lambda>_. Inl network_error :: AxiosError + unit) (JObj [])) =
     [ToastError ''Network Error''] \<and>
   fst (getExecution (\<lambda>_. Inr (mk_execution ''e1'' ''pending'')) ''e1'') = [] \<and>
   fst (getExecution (\<lambda>_. Inl (http_error 404 None)) ''e1'') =
     [ToastError ''Resource not found'']"
  using success_notifications
          [where ?b1.0 = "\<lambda>_. Inr (mk_execution ''e1'' ''pending'')"
             and request = "JObj [(''goal'', JStr ''Summarize this document''), (''max_depth'', JNum 2)]"
             and ?b2.0 = "\<lambda>_. Inr ()" and eid = "''e1''"
             and ?b3.0 = "\<lambda>_. Inr ()" and cid = "''ckpt-123''" and resume = "Some True"
             and ?b4.0 = "\<lambda>_. Inr ()" and config = "JObj [(''profile'', JStr ''default'')]"]
  by (simp add: op_defs client_defs after_success_def client_send_def
        response_interceptor_def handleError_def response_status_def response_detail_def
        or_else_def Let_def network_error_def http_error_def)

section \<open>Properties of the status poller\<close>

lemma getExecutionStatus_ok: "getExecutionStatus (\<lambda>_. Inr st) eid = ([], Inr st)"
  by (simp add: getExecutionStatus_def client_get_def succeeding_call)


lemma poll_start_fields:
  "timers (poll_start s) = timers s"
  "delivered (poll_start s) = delivered s"
  "toasts (poll_start s) = toasts s"
  "interval (poll_start s) = interval s"
  "executionId (poll_start s) = executionId s"
  "receiver (poll_start s) = receiver s"
  by (cases "receiver s"; simp add: poll_start_def)+

lemma poll_start_instance:
  assumes "receiver s = Instance"
  shows "issued (poll_start s) = issued s @ [status_request (executionId s)]"
    and "in_flight (poll_start s) = in_flight s + 1"
    and "console (poll_start s) = console s"
  using assms by (simp_all add: poll_start_def status_request_def)

lemma poll_start_undefined:
  assumes "receiver s = Undefined"
  shows "issued (poll_start s) = issued s"
    and "in_flight (poll_start s) = in_flight s"
    and "console (poll_start s) = console s @ [''Error polling execution status:'']"
  using assms by (simp_all add: poll_start_def)

lemma poll_resume_ok:
  "poll_resume (Inr st) sink s =
     (let s1 = s\<lparr>in_flight := in_flight s - 1, delivered := delivered s @ [st]\<rparr>
      in case sink of
           Throws \<Rightarrow> s1\<lparr>console := console s1 @ [''Error polling execution status:'']\<rparr>
         | Returns \<Rightarrow>
             if StatusPolling.status st \<in> {''completed'', ''failed'', ''cancelled''} then s1
             else s1\<lparr>timers := timers s1 @ [interval s1]\<rparr>)"
  by (simp add: poll_resume_def getExecutionStatus_ok Let_def)

lemma poller_inv_start: "poller_inv (pollExecutionStatus rcv eid iv)"
  by (cases rcv) (simp_all add: poller_inv_def pollExecutionStatus_def poll_start_def)

lemma poll_resume_in_flight: "in_flight (poll_resume outcome sink s) = in_flight s - 1"
  by (cases outcome; cases sink)
     (simp_all add: poll_resume_failed poll_resume_ok Let_def)

lemma poll_resume_timers_le:
  "length (timers (poll_resume outcome sink s)) \<le> Suc (length (timers s))"
  by (cases outcome; cases sink)
     (simp_all add: poll_resume_failed poll_resume_ok Let_def)


lemma poll_resume_receiver: "receiver (poll_resume outcome sink s) = receiver s"
  by (cases outcome; cases sink)
     (simp_all add: poll_resume_failed poll_resume_ok Let_def)

lemma poller_inv_parts:
  assumes "poller_inv s"
  shows "in_flight s + length (timers s) \<le> 1"
    and "in_flight s \<noteq> 0 \<Longrightarrow> receiver s = Instance"
    and "timers s \<noteq> [] \<Longrightarrow> receiver s = Instance"
  using assms by (auto simp add: poller_inv_def)

lemma poller_inv_step:
  assumes "poller_inv s" and "poller_step ev s = Some s'"
  shows "poller_inv s'"
proof (cases ev)
  case (FetchSettles outcome sink)
  with assms(2) have pos: "in_flight s \<noteq> 0" and s': "s' = poll_resume outcome sink s"
    by (auto split: if_splits)
  from poller_inv_parts(1) [OF assms(1)] pos
  have "in_flight s = 1" and "length (timers s) = 0"
    by arith+
  moreover have "receiver s = Instance"
    using pos by (rule poller_inv_parts(2) [OF assms(1)])
  ultimately show ?thesis
    using poll_resume_timers_le [of outcome sink s]
    by (simp add: poller_inv_def s' poll_resume_in_flight poll_resume_receiver)
next
  case TimerFires
  with assms(2) obtain d ds where t: "timers s = d # ds" and s': "s' = poll_start (s\<lparr>timers := ds\<rparr>)"
    by (auto split: list.splits)
  from t have ne: "timers s \<noteq> []" by simp
  have rcv: "receiver s = Instance"
    using ne by (rule poller_inv_parts(3) [OF assms(1)])
  from poller_inv_parts(1) [OF assms(1)] t have "in_flight s = 0" and "ds = []"
    by simp_all
  with rcv show ?thesis
    by (simp add: poller_inv_def s' poll_start_fields poll_start_instance)
next
  case StopCalled
  with assms show ?thesis by (simp add: stop_polling_def)
qed

lemma poller_inv_run:
  "poller_inv s \<Longrightarrow> poller_run evs s = Some s' \<Longrightarrow> poller_inv s'"
proof (induction evs arbitrary: s)
  case Nil
  then show ?case by simp
next
  case (Cons ev evs)
  from Cons.prems(2) obtain s1 where 1: "poller_step ev s = Some s1" and 2: "poller_run evs s1 = Some s'"
    by (auto split: option.splits)
  from Cons.prems(1) 1 have "poller_inv s1" by (rule poller_inv_step)
  then show ?case using 2 by (rule Cons.IH)
qed

lemma poller_idle_step:
  "in_flight s = 0 \<Longrightarrow> timers s = [] \<Longrightarrow> poller_step ev s = Some s' \<Longrightarrow> s' = s"
  by (cases ev) (simp_all add: stop_polling_def)

lemma poller_idle_run:
  "in_flight s = 0 \<Longrightarrow> timers s = [] \<Longrightarrow> poller_run evs s = Some s' \<Longrightarrow> s' = s"
proof (induction evs)
  case Nil
  then show ?case by simp
next
  case (Cons ev evs)
  from Cons.prems(3) obtain s1 where 1: "poller_step ev s = Some s1" and 2: "poller_run evs s1 = Some s'"
    by (auto split: option.splits)
  from Cons.prems(1,2) 1 have "s1 = s" by (rule poller_idle_step)
  with 2 Cons show ?case by simp
qed


lemma poller_step_settles:
  "poller_step (FetchSettles outcome sink) s = Some s' \<Longrightarrow>
     in_flight s \<noteq> 0 \<and> s' = poll_resume outcome sink s"
  by (simp split: if_splits)

lemma poller_step_fires:
  "poller_step TimerFires s = Some s' \<Longrightarrow>
     timers s \<noteq> [] \<and> s' = poll_start (s\<lparr>timers := tl (timers s)\<rparr>)"
  by (cases "timers s") simp_all

lemma reachable_in_flight:
  assumes "poller_inv s"
  shows "in_flight s \<le> 1" and "in_flight s \<noteq> 0 \<Longrightarrow> timers s = []"
    and "timers s \<noteq> [] \<Longrightarrow> in_flight s = 0"
proof -
  have b: "in_flight s + length (timers s) \<le> 1"
    using assms by (rule poller_inv_parts)
  then show "in_flight s \<le> 1" by arith
  { assume "in_flight s \<noteq> 0"
    with b have "length (timers s) = 0" by arith
    then show "timers s = []" by simp }
  { assume "timers s \<noteq> []"
    then have "length (timers s) \<noteq> 0" by simp
    with b show "in_flight s = 0" by arith }
qed

text \<open>
  Claim C9. In every state a poller started by \<open>pollExecutionStatus\<close> can reach,
  whatever its receiver, at most one status request is outstanding. While one is outstanding no timer is pending,
  so no timer can fire however long the request takes; a timer fires, and issues the
  next request, only when none is outstanding.
\<close>

theorem one_outstanding_fetch:
  assumes "poller_run evs (pollExecutionStatus rcv eid iv) = Some s"
  shows "in_flight s \<le> 1 \<and>
         (in_flight s = 1 \<longrightarrow> timers s = [] \<and> poller_step TimerFires s = None) \<and>
         (poller_step TimerFires s = Some s' \<longrightarrow> in_flight s = 0 \<and> in_flight s' = 1)"
proof -
  have inv: "poller_inv s"
    using poller_inv_start assms by (rule poller_inv_run)
  have a: "in_flight s \<le> 1" using inv by (rule reachable_in_flight)
  have b: "in_flight s = 1 \<longrightarrow> timers s = [] \<and> poller_step TimerFires s = None"
    using reachable_in_flight(2) [OF inv] by simp
  have c: "poller_step TimerFires s = Some s' \<longrightarrow> in_flight s = 0 \<and> in_flight s' = 1"
  proof
    assume st: "poller_step TimerFires s = Some s'"
    then have ne: "timers s \<noteq> []" and s': "s' = poll_start (s\<lparr>timers := tl (timers s)\<rparr>)"
      by (rule poller_step_fires [THEN conjunct1], rule poller_step_fires [THEN conjunct2])
    from ne have idle: "in_flight s = 0" by (rule reachable_in_flight(3) [OF inv])
    from ne have "receiver s = Instance" by (rule poller_inv_parts(3) [OF inv])
    then have "in_flight s' = in_flight s + 1"
      by (simp add: s' poll_start_instance)
    with idle show "in_flight s = 0 \<and> in_flight s' = 1"
      by simp
  qed
  from a b c show ?thesis by blast
qed

lemmas poller_eval =
  pollExecutionStatus_def poll_start_def poll_resume_ok poll_resume_failed default_to_def
  stop_polling_def snapshot_def status_request_def Let_def

theorem one_outstanding_fetch_witness:
  "(case poller_run [FetchSettles (Inr (snapshot ''e1'' ''running'')) Returns, TimerFires]
           (pollExecutionStatus Instance ''e1'' None) of
      None \<Rightarrow> False
    | Some s \<Rightarrow> in_flight s = 1 \<and> timers s = [] \<and> poller_step TimerFires s = None) \<and>
   (case poller_run [FetchSettles (Inr (snapshot ''e1'' ''running'')) Returns]
           (pollExecutionStatus Instance ''e1'' None) of
      None \<Rightarrow> False
    | Some s \<Rightarrow>
        in_flight s = 0 \<and> timers s = [2000] \<and>
        map_option in_flight (poller_step TimerFires s) = Some 1)"
proof -
  let ?init = "pollExecutionStatus Instance ''e1'' None"
  let ?s1 = "poll_resume (Inr (snapshot ''e1'' ''running'')) Returns ?init"
  let ?s2 = "poll_start (?s1\<lparr>timers := []\<rparr>)"
  have start: "in_flight ?init = 1" "timers ?init = []" "interval ?init = 2000"
    by (simp_all add: pollExecutionStatus_def poll_start_def default_to_def)
  have s1: "in_flight ?s1 = 0" "timers ?s1 = [2000]"
    by (simp_all add: poll_resume_ok Let_def start snapshot_def)
  have r1: "receiver ?s1 = Instance"
    by (simp add: poll_resume_receiver pollExecutionStatus_def poll_start_fields)
  have s2: "in_flight ?s2 = 1" "timers ?s2 = []"
    by (simp_all add: poll_start_fields poll_start_instance r1 s1)
  have run1: "poller_run [FetchSettles (Inr (snapshot ''e1'' ''running'')) Returns] ?init = Some ?s1"
    by (simp add: start)
  have run2: "poller_run [FetchSettles (Inr (snapshot ''e1'' ''running'')) Returns, TimerFires] ?init
                = Some ?s2"
    by (simp add: start s1)
  have a: "timers ?s2 = [] \<and> poller_step TimerFires ?s2 = None"
    using one_outstanding_fetch [OF run2, of ?s2] s2(1) by simp
  have b: "in_flight ?s1 = 0 \<and> in_flight ?s2 = 1"
    using one_outstanding_fetch [OF run1, of ?s2] by (simp add: s1)
  show ?thesis
    unfolding run1 run2 using a b by (simp add: s1 s2)
qed

lemma pollExecutionStatus_state:
  "pollExecutionStatus Instance eid iv =
     \<lparr>issued = [status_request eid], in_flight = 1, toasts = [], console = [],
      receiver = Instance, executionId = eid,
      interval = (case iv of None \<Rightarrow> 2000 | Some ms \<Rightarrow> ms),
      timers = [], delivered = []\<rparr>"
  by (simp add: pollExecutionStatus_def poll_start_def status_request_def default_to_def)

lemma pollExecutionStatus_unbound:
  "pollExecutionStatus Undefined eid iv =
     \<lparr>issued = [], in_flight = 0, toasts = [],
      console = [''Error polling execution status:''],
      receiver = Undefined, executionId = eid,
      interval = (case iv of None \<Rightarrow> 2000 | Some ms \<Rightarrow> ms),
      timers = [], delivered = []\<rparr>"
  by (simp add: pollExecutionStatus_def poll_start_def default_to_def)







text \<open>
  Claim C1, as the code has it. When the status request of a started poller rejects, the
  transport adapter emits its one error notification and the \<open>catch\<close> block writes
  one console line; nothing is delivered to the sink, no timer is scheduled and no
  request is outstanding, so whatever happens afterwards changes nothing: polling has
  ended.
\<close>

theorem failed_fetch_ends_polling:
  assumes "poller_run evs (pollExecutionStatus rcv eid iv) = Some s"
    and "poller_step (FetchSettles (Inl err) sink) s = Some s'"
    and "poller_run evs' s' = Some s''"
  shows "toasts s' = toasts s @ [ToastError (class_notification (spec_classify err))] \<and>
         console s' = console s @ [''Error polling execution status:''] \<and>
         delivered s' = delivered s \<and> issued s' = issued s \<and>
         timers s' = [] \<and> in_flight s' = 0 \<and> s'' = s'"
proof -
  have inv: "poller_inv s" using poller_inv_start assms(1) by (rule poller_inv_run)
  from assms(2) have pos: "in_flight s \<noteq> 0"
    by (rule poller_step_settles [THEN conjunct1])
  from assms(2) have s': "s' = poll_resume (Inl err) sink s"
    by (rule poller_step_settles [THEN conjunct2])
  have one: "in_flight s \<le> 1" using inv by (rule reachable_in_flight)
  have nt: "timers s = []" using pos by (rule reachable_in_flight(2) [OF inv])
  have t': "timers s' = []" by (simp add: s' poll_resume_failed nt)
  have f': "in_flight s' = 0" using one by (simp add: s' poll_resume_failed)
  have same: "s'' = s'" using f' t' assms(3) by (rule poller_idle_run)
  show ?thesis
    using t' f' same by (simp add: s' poll_resume_failed)
qed

theorem failed_fetch_ends_polling_witness:
  "toasts (poll_resume (Inl network_error) Returns (pollExecutionStatus Instance ''e1'' None)) =
     [ToastError ''Network Error''] \<and>
   console (poll_resume (Inl network_error) Returns (pollExecutionStatus Instance ''e1'' None)) =
     [''Error polling execution status:''] \<and>
   timers (poll_resume (Inl network_error) Returns (pollExecutionStatus Instance ''e1'' None)) = [] \<and>
   in_flight (poll_resume (Inl network_error) Returns (pollExecutionStatus Instance ''e1'' None)) = 0 \<and>
   poller_run [StopCalled, StopCalled]
     (poll_resume (Inl network_error) Returns (pollExecutionStatus Instance ''e1'' None)) =
     Some (poll_resume (Inl network_error) Returns (pollExecutionStatus Instance ''e1'' None))"
proof -
  let ?init = "pollExecutionStatus Instance ''e1'' None"
  let ?dead = "poll_resume (Inl network_error) Returns ?init"
  have h1: "poller_run [] ?init = Some ?init" by simp
  have h2: "poller_step (FetchSettles (Inl network_error) Returns) ?init = Some ?dead"
    by (simp add: pollExecutionStatus_state)
  have h3: "poller_run [StopCalled, StopCalled] ?dead = Some ?dead"
    by (simp add: stop_polling_def)
  have cls: "class_notification (spec_classify network_error) = ''Network Error''"
    by (simp add: spec_classify_def network_error_def or_else_def)
  show ?thesis
    using failed_fetch_ends_polling [OF h1 h2 h3] h3 cls
    by (simp add: pollExecutionStatus_state)
qed

text \<open>
  Claim C1 as stated fails: after a network failure of the first request no timer is
  pending and none can fire, whereas after a snapshot with status running the next poll
  is pending with delay 2000.
\<close>

theorem failed_fetch_reschedules_counterexample:
  "map_option timers
     (poller_run [FetchSettles (Inl network_error) Returns] (pollExecutionStatus Instance ''e1'' None))
     = Some [] \<and>
   poller_run [FetchSettles (Inl network_error) Returns, TimerFires]
     (pollExecutionStatus Instance ''e1'' None) = None \<and>
   map_option timers
     (poller_run [FetchSettles (Inr (snapshot ''e1'' ''running'')) Returns]
        (pollExecutionStatus Instance ''e1'' None))
     = Some [2000]"
  by (simp add: poller_eval)

text \<open>
  Claim C2. The function \<open>pollExecutionStatus\<close> returns leaves every state as it is:
  obtained from the method call and called while the timer of the next poll is pending, it leaves the timer pending, and
  the timer then fires and issues a second status request.
\<close>

theorem stop_handle_has_no_effect:
  "stop_polling s = s \<and>
   map_option timers
     (poller_run [FetchSettles (Inr (snapshot ''e1'' ''running'')) Returns, StopCalled]
        (pollExecutionStatus Instance ''e1'' (Some 2000)))
     = Some [2000] \<and>
   map_option issued
     (poller_run [FetchSettles (Inr (snapshot ''e1'' ''running'')) Returns, StopCalled, TimerFires]
        (pollExecutionStatus Instance ''e1'' (Some 2000)))
     = Some [status_request ''e1'', status_request ''e1'']"
  by (simp add: poller_eval)

section \<open>Properties of the health monitor\<close>













end
